theory Spec2Isabelle
  imports Main
begin

text \<open>
  The row-resizing plugin of \<open>src/rowresizing.ts\<close>: its interaction state
  \<open>RowResizeState\<close> with the transition function \<open>apply\<close>, the handlers of
  \<open>mousemove\<close>, \<open>mouseleave\<close> and \<open>mousedown\<close>, the drag-height formula and the
  commit of a row height by \<open>updateRowHeight\<close>. The host editor (documents, positions,
  transactions, hit tests) and the table map are represented by what the plugin reads from
  them and writes to them.
\<close>

section \<open>Numbers as the plugin handles them\<close>

text \<open>
  Pixel quantities and document positions are JavaScript numbers; here they are integers.
  A cell's \<open>height\<close> attribute may be unset (\<open>undefined\<close> or \<open>null\<close>), and
  arithmetic on an unset value follows JavaScript: \<open>null\<close> counts as 0, \<open>undefined\<close>
  gives \<open>NaN\<close>, and \<open>Math.max\<close> returns \<open>NaN\<close> as soon as one argument is.
\<close>

datatype jsnum = Undefined | Null | Num int | NaN

fun ToNumber :: "jsnum \<Rightarrow> int option" where
  "ToNumber Undefined = None"
| "ToNumber Null = Some 0"
| "ToNumber (Num n) = Some n"
| "ToNumber NaN = None"

definition js_add :: "jsnum \<Rightarrow> jsnum \<Rightarrow> jsnum" where
  "js_add a b =
     (case ToNumber a of None \<Rightarrow> NaN
      | Some x \<Rightarrow> (case ToNumber b of None \<Rightarrow> NaN | Some y \<Rightarrow> Num (x + y)))"

definition Math_max :: "jsnum \<Rightarrow> jsnum \<Rightarrow> jsnum" where
  "Math_max a b =
     (case ToNumber a of None \<Rightarrow> NaN
      | Some x \<Rightarrow> (case ToNumber b of None \<Rightarrow> NaN | Some y \<Rightarrow> Num (max x y)))"

section \<open>The interaction state\<close>

text \<open>
  \<open>DraggingRow = { startY: number; startHeight: number }\<close>. The start height is whatever
  \<open>cell.attrs.height\<close> held at pointer-down, so it is a \<^typ>\<open>jsnum\<close>.
\<close>

record DraggingRow =
  startY :: int
  startHeight :: jsnum

text \<open>
  The field \<open>draggingRow\<close> is declared \<open>DraggingRow | false\<close>; the plugin itself also
  stores \<open>null\<close> there (the action \<open>{ setDraggingRow: null }\<close> of \<open>finish\<close>).
\<close>

datatype dragging = DragFalse | DragNull | Drag DraggingRow

fun truthy :: "dragging \<Rightarrow> bool" where
  "truthy (Drag d) = True"
| "truthy DragFalse = False"
| "truthy DragNull = False"

record RowResizeState =
  activeHandle :: int
  draggingRow :: dragging

text \<open>
  The value a transaction carries under the plugin key. \<open>setHandle = None\<close> stands for a
  field that is \<open>null\<close> or \<open>undefined\<close> (the source tests \<open>!= null\<close>);
  \<open>setDraggingRow = None\<close> stands for \<open>undefined\<close> (the source tests \<open>!== undefined\<close>).
\<close>

record action =
  setHandle :: "int option"
  setDraggingRow :: "dragging option"

section \<open>The document, as far as the plugin reads it\<close>

text \<open>\<open>CellAttrsWithHeight\<close>: the cell attributes of \<open>CellAttrs\<close> and \<open>height\<close>.\<close>

record cell_attrs =
  colspan :: int
  rowspan :: int
  colwidth :: "int list option"
  height :: jsnum

text \<open>
  A cell node: its attributes, and the index of its row among the table's children
  (what \<open>$cell.index(-1)\<close> returns for a position pointing at the cell).
\<close>

record cell_node =
  rowIndex :: nat
  attrs :: cell_attrs

text \<open>
  Modelled from the spec: \<open>TableMap\<close> (\<open>./tablemap\<close>) is the spec's GridMap, a row-major
  matrix of \<open>width * height\<close> slots, each holding the offset, from the table's start, of
  the cell that occupies the slot. It is taken as data here; nothing is assumed about it
  beyond what a theorem states.
\<close>

record TableMap =
  tm_width :: nat
  tm_height :: nat
  tm_map :: "int list"

text \<open>
  A document holding one table: \<open>tableStart\<close> is \<open>$cell.start(-1)\<close>, \<open>tableMap\<close> is
  \<open>TableMap.get(table)\<close>, and \<open>cellAt p\<close> is the cell node right after the absolute
  position \<open>p\<close>, if \<open>p\<close> points at a cell. So \<open>table.nodeAt(pos)\<close> is
  \<open>cellAt (tableStart + pos)\<close>. \<open>otherNodeAt p\<close> tells whether a node that is no cell
  (the table, a row, a paragraph) starts right after \<open>p\<close>; \<open>doc.nodeAt(p)\<close> is that
  node or the cell, and \<open>null\<close> when there is neither.
\<close>

record document =
  tableStart :: int
  tableMap :: TableMap
  cellAt :: "int \<rightharpoonup> cell_node"
  otherNodeAt :: "int \<Rightarrow> bool"

text \<open>
  Modelled from the spec: \<open>pointsAtCell\<close> (\<open>./util\<close>) tells whether a position points at
  a valid cell of the document.
\<close>

definition pointsAtCell :: "document \<Rightarrow> int \<Rightarrow> bool" where
  "pointsAtCell d p = (cellAt d p \<noteq> None)"

text \<open>
  Where the source throws, or goes on with a value that is no position, the model returns
  one of these:
  \<^item> \<open>NotACell p\<close>: no cell node at position \<open>p\<close>. The source reads \<open>attrs\<close> of the
    \<open>null\<close> that \<open>nodeAt\<close> or \<open>nodeAfter\<close> gave, or \<open>setNodeMarkup\<close> finds no node, or
    \<open>resolve\<close> and \<open>TableMap.get\<close> reject a position that is in no row of a table;
  \<^item> \<open>NoCellOffset o\<close>: \<open>colCount\<close> was asked for an offset that is not in the map;
  \<^item> \<open>BadMapIndex i\<close>: \<open>map.map[i]\<close> is out of range and \<open>nodeAt(undefined)\<close> throws;
  \<^item> \<open>NotANumber\<close>: \<open>edgeCell\<close> computed \<open>NaN\<close> from an offset that is not in the map.
\<close>

datatype error = NotACell int | NoCellOffset int | BadMapIndex nat | NotANumber

text \<open>\<open>Array.prototype.indexOf\<close>; \<open>None\<close> for -1.\<close>

fun indexOf :: "int list \<Rightarrow> int \<Rightarrow> nat option" where
  "indexOf [] x = None"
| "indexOf (y # ys) x =
     (if y = x then Some 0 else (case indexOf ys x of None \<Rightarrow> None | Some i \<Rightarrow> Some (Suc i)))"

text \<open>
  Modelled from the spec: \<open>TableMap.colCount\<close> (\<open>./tablemap\<close>) is the spec's
  \<open>columnIndexOf\<close>, the 0-based column a cell starts at; it throws for an offset that is
  no cell of the table.
\<close>

definition colCount :: "TableMap \<Rightarrow> int \<Rightarrow> error + int" where
  "colCount m pos =
     (case indexOf (tm_map m) pos of
        None \<Rightarrow> Inl (NoCellOffset pos)
      | Some i \<Rightarrow> Inr (int (i mod tm_width m)))"

section \<open>Transactions\<close>

text \<open>
  A transaction as the plugin sees it: the metadata under the plugin key, the steps, the
  position mapping \<open>tr.mapping.map(pos, -1)\<close> and the document after the steps.
  \<open>docChanged\<close> is the host's \<open>steps.length > 0\<close>.
\<close>

datatype step = SetNodeMarkup int cell_attrs | ForeignStep

record transaction =
  meta :: "action option"
  steps :: "step list"
  mapping :: "int \<Rightarrow> int"
  tr_doc :: document

definition docChanged :: "transaction \<Rightarrow> bool" where
  "docChanged tr = (steps tr \<noteq> [])"

definition setMeta :: "transaction \<Rightarrow> action \<Rightarrow> transaction" where
  "setMeta tr a = tr\<lparr>meta := Some a\<rparr>"

text \<open>
  \<open>tr.setNodeMarkup(pos, null, attrs)\<close>: throws when there is no node at \<open>pos\<close>; otherwise
  it always adds a step, replaces the node's attributes and moves no position.
\<close>

definition setNodeMarkup :: "transaction \<Rightarrow> int \<Rightarrow> cell_attrs \<Rightarrow> error + transaction" where
  "setNodeMarkup tr pos a =
     (case cellAt (tr_doc tr) pos of
        None \<Rightarrow> Inl (NotACell pos)
      | Some c \<Rightarrow>
          Inr (tr\<lparr>steps := steps tr @ [SetNodeMarkup pos a],
                  tr_doc := (tr_doc tr)\<lparr>cellAt := (cellAt (tr_doc tr))(pos \<mapsto> c\<lparr>attrs := a\<rparr>)\<rparr>\<rparr>))"

section \<open>RowResizeState.apply\<close>

definition RowResizeState_apply :: "RowResizeState \<Rightarrow> transaction \<Rightarrow> RowResizeState" where
  "RowResizeState_apply state tr =
     (case (case meta tr of None \<Rightarrow> None | Some a \<Rightarrow> setHandle a) of
        Some h \<Rightarrow> \<lparr>activeHandle = h, draggingRow = DragFalse\<rparr>
      | None \<Rightarrow>
         (case (case meta tr of None \<Rightarrow> None | Some a \<Rightarrow> setDraggingRow a) of
            Some d \<Rightarrow> \<lparr>activeHandle = activeHandle state, draggingRow = d\<rparr>
          | None \<Rightarrow>
              if activeHandle state > -1 \<and> docChanged tr then
                (let handle = mapping tr (activeHandle state);
                     handle = (if \<not> pointsAtCell (tr_doc tr) handle then -1 else handle)
                 in \<lparr>activeHandle = handle, draggingRow = draggingRow state\<rparr>)
              else state))"

text \<open>A transaction that carries no set-handle and no set-dragging action.\<close>

definition no_action :: "transaction \<Rightarrow> bool" where
  "no_action tr =
     (case meta tr of None \<Rightarrow> True | Some a \<Rightarrow> setHandle a = None \<and> setDraggingRow a = None)"

section \<open>The view and its events\<close>

text \<open>
  The editor view: the plugin's state (\<open>None\<close> when \<open>getState\<close> returns \<open>undefined\<close>),
  the document, the two hit tests of the rendering layer (\<open>view.posAtCoords\<close> and
  \<open>cellAround\<close> of \<open>./util\<close>, which gives the position of the cell around a position),
  the transactions dispatched so far, and whether the window listeners of a drag are
  installed.
\<close>

record view =
  pluginState :: "RowResizeState option"
  doc :: document
  posAtCoords :: "int \<Rightarrow> int \<Rightarrow> int option"
  cellAround :: "int \<Rightarrow> int option"
  dispatched :: "transaction list"
  dragListeners :: bool

text \<open>
  \<open>target\<close> is the bounding rectangle (left, right) of \<open>domCellAround(event.target)\<close>,
  \<open>None\<close> when the pointer is over no table cell.
\<close>

record mouse_event =
  clientX :: int
  clientY :: int
  target :: "(int \<times> int) option"

text \<open>\<open>view.state.tr\<close>: a fresh transaction on the current document.\<close>

definition state_tr :: "view \<Rightarrow> transaction" where
  "state_tr v = \<lparr>meta = None, steps = [], mapping = (\<lambda>p. p), tr_doc = doc v\<rparr>"

text \<open>\<open>view.dispatch(tr)\<close>: the plugin state is advanced by \<open>apply\<close>, the document replaced.\<close>

definition dispatch :: "view \<Rightarrow> transaction \<Rightarrow> view" where
  "dispatch v tr =
     v\<lparr>pluginState := map_option (\<lambda>s. RowResizeState_apply s tr) (pluginState v),
       doc := tr_doc tr,
       dispatched := dispatched v @ [tr]\<rparr>"

definition updateHandle :: "view \<Rightarrow> int \<Rightarrow> view" where
  "updateHandle v val =
     dispatch v (setMeta (state_tr v) \<lparr>setHandle = Some val, setDraggingRow = None\<rparr>)"

definition draggedHeight :: "DraggingRow \<Rightarrow> mouse_event \<Rightarrow> int \<Rightarrow> jsnum" where
  "draggedHeight dr event cellMinHeight =
     (let offset = clientY event - startY dr
      in Math_max (Num cellMinHeight) (js_add (startHeight dr) (Num offset)))"

definition handleMouseLeave :: "view \<Rightarrow> view" where
  "handleMouseLeave v =
     (case pluginState v of
        None \<Rightarrow> v
      | Some ps \<Rightarrow>
          if activeHandle ps > -1 \<and> \<not> truthy (draggingRow ps) then updateHandle v (-1) else v)"

text \<open>
  \<open>doc.nodeAt(p)!.attrs.height\<close>: the height of the cell at \<open>p\<close>; \<open>undefined\<close> for a
  node that is no cell, which has no such attribute; a \<open>TypeError\<close> when there is no node.
\<close>

definition nodeAt_height :: "document \<Rightarrow> int \<Rightarrow> error + jsnum" where
  "nodeAt_height d p =
     (case cellAt d p of
        Some cell \<Rightarrow> Inr (height (attrs cell))
      | None \<Rightarrow> if otherNodeAt d p then Inr Undefined else Inl (NotACell p))"

text \<open>
  \<open>handleMouseDown\<close> returns its boolean and the view it leaves behind. The closures
  \<open>finish\<close> and \<open>move\<close> it installs on the window are the flag \<open>dragListeners\<close>.
\<close>

definition handleMouseDown :: "view \<Rightarrow> mouse_event \<Rightarrow> int \<Rightarrow> error + (bool \<times> view)" where
  "handleMouseDown v event cellMinHeight =
     (case pluginState v of
        None \<Rightarrow> Inr (False, v)
      | Some ps \<Rightarrow>
          if activeHandle ps = -1 \<or> truthy (draggingRow ps) then Inr (False, v)
          else
            (case nodeAt_height (doc v) (activeHandle ps) of
               Inl e \<Rightarrow> Inl e
             | Inr cell_height \<Rightarrow>
                 Inr (True,
                      (dispatch v
                         (setMeta (state_tr v)
                            \<lparr>setHandle = None,
                             setDraggingRow =
                               Some (Drag \<lparr>startY = clientY event,
                                           startHeight = cell_height\<rparr>)\<rparr>))
                      \<lparr>dragListeners := True\<rparr>)))"

section \<open>Committing a row height\<close>

text \<open>
  The absolute position of the cell that occupies column \<open>i\<close> of row \<open>row\<close>:
  \<open>start + map.map[row * map.width + i]\<close>.
\<close>

definition rowSlot :: "document \<Rightarrow> nat \<Rightarrow> nat \<Rightarrow> int" where
  "rowSlot d row i = tableStart d + tm_map (tableMap d) ! (row * tm_width (tableMap d) + i)"

text \<open>
  The body of the loop \<open>for (let i = 0; i < map.width; i++)\<close> of \<open>updateRowHeight\<close>, over
  the column indices still to visit. The attributes are read from \<open>table\<close>, the table of the
  document the view held when the function was called; the step goes to the transaction.
\<close>

fun updateRowCells ::
  "document \<Rightarrow> nat \<Rightarrow> jsnum \<Rightarrow> nat list \<Rightarrow> transaction \<Rightarrow> error + transaction"
where
  "updateRowCells table row h [] tr = Inr tr"
| "updateRowCells table row h (i # cols) tr =
     (if length (tm_map (tableMap table)) \<le> row * tm_width (tableMap table) + i
      then Inl (BadMapIndex (row * tm_width (tableMap table) + i))
      else
        (case cellAt table (rowSlot table row i) of
           None \<Rightarrow> Inl (NotACell (rowSlot table row i))
         | Some c \<Rightarrow>
             (case setNodeMarkup tr (rowSlot table row i) ((attrs c)\<lparr>height := h\<rparr>) of
                Inl e \<Rightarrow> Inl e
              | Inr tr' \<Rightarrow> updateRowCells table row h cols tr')))"

text \<open>
  \<open>updateRowHeight\<close> up to its last line: the transaction it builds. \<open>col\<close> is computed
  and never used, but computing it can throw.
\<close>

definition rowHeightEdit :: "view \<Rightarrow> int \<Rightarrow> jsnum \<Rightarrow> error + transaction" where
  "rowHeightEdit v cell h =
     (case colCount (tableMap (doc v)) (cell - tableStart (doc v)) of
        Inl e \<Rightarrow> Inl e
      | Inr cc \<Rightarrow>
          (case cellAt (doc v) cell of
             None \<Rightarrow> Inl (NotACell cell)
           | Some c \<Rightarrow>
               updateRowCells (doc v) (rowIndex c) h [0..<tm_width (tableMap (doc v))]
                 (state_tr v)))"

text \<open>The last line: \<open>if (tr.docChanged) view.dispatch(tr)\<close>.\<close>

definition updateRowHeight :: "view \<Rightarrow> int \<Rightarrow> jsnum \<Rightarrow> error + view" where
  "updateRowHeight v cell h =
     (case rowHeightEdit v cell h of
        Inl e \<Rightarrow> Inl e
      | Inr tr \<Rightarrow> Inr (if docChanged tr then dispatch v tr else v))"

text \<open>Calling \<open>updateRowHeight\<close> twice with the same handle and height.\<close>

definition updateRowHeight_twice :: "view \<Rightarrow> int \<Rightarrow> jsnum \<Rightarrow> error + view" where
  "updateRowHeight_twice v cell h =
     (case updateRowHeight v cell h of Inl e \<Rightarrow> Inl e | Inr v1 \<Rightarrow> updateRowHeight v1 cell h)"

text \<open>The positions a list of steps sets the markup of, in order.\<close>

fun markup_positions :: "step list \<Rightarrow> int list" where
  "markup_positions [] = []"
| "markup_positions (SetNodeMarkup p a # ss) = p # markup_positions ss"
| "markup_positions (ForeignStep # ss) = markup_positions ss"

text \<open>For each transaction a run dispatched, the positions it set the markup of.\<close>

definition committed_positions :: "error + view \<Rightarrow> error + int list list" where
  "committed_positions r =
     (case r of
        Inl e \<Rightarrow> Inl e
      | Inr v \<Rightarrow> Inr (map (\<lambda>tr. markup_positions (steps tr)) (dispatched v)))"

text \<open>
  A cell after the loop has passed it: the node it was, with the attributes it has in
  \<open>table\<close> at that position and the new height.
\<close>

definition with_height :: "document \<Rightarrow> jsnum \<Rightarrow> int \<Rightarrow> cell_node \<Rightarrow> cell_node" where
  "with_height table h p c = c\<lparr>attrs := (attrs (the (cellAt table p)))\<lparr>height := h\<rparr>\<rparr>"

text \<open>The step the loop adds for column \<open>i\<close>, when the slot holds a cell.\<close>

definition row_step :: "document \<Rightarrow> nat \<Rightarrow> jsnum \<Rightarrow> nat \<Rightarrow> step" where
  "row_step table row h i =
     SetNodeMarkup (rowSlot table row i)
       ((attrs (the (cellAt table (rowSlot table row i))))\<lparr>height := h\<rparr>)"

text \<open>
  The closure \<open>finish\<close> of \<open>handleMouseDown\<close>, run on the window's \<open>mouseup\<close>: it removes
  the listeners, commits the dragged height and clears the drag session.
\<close>

definition finish :: "view \<Rightarrow> mouse_event \<Rightarrow> int \<Rightarrow> error + view" where
  "finish v event cellMinHeight =
     (case pluginState v of
        None \<Rightarrow> Inr (v\<lparr>dragListeners := False\<rparr>)
      | Some ps \<Rightarrow>
          (case draggingRow ps of
             Drag dr \<Rightarrow>
               (case updateRowHeight (v\<lparr>dragListeners := False\<rparr>) (activeHandle ps)
                       (draggedHeight dr event cellMinHeight) of
                  Inl e \<Rightarrow> Inl e
                | Inr v1 \<Rightarrow>
                    Inr (dispatch v1
                           (setMeta (state_tr v1)
                              \<lparr>setHandle = None, setDraggingRow = Some DragNull\<rparr>)))
           | DragFalse \<Rightarrow> Inr (v\<lparr>dragListeners := False\<rparr>)
           | DragNull \<Rightarrow> Inr (v\<lparr>dragListeners := False\<rparr>)))"

section \<open>Hovering\<close>

datatype side = left | right

text \<open>
  \<open>edgeCell\<close>. \<open>index % map.width === 0\<close> is false when the width is 0 (the remainder
  is \<open>NaN\<close>), and \<open>indexOf\<close> gives -1 for an offset that is not in the map, for which
  \<open>-1 % map.width\<close> is zero only when the width is 1.
\<close>

definition edgeCell :: "view \<Rightarrow> mouse_event \<Rightarrow> side \<Rightarrow> int \<Rightarrow> error + int" where
  "edgeCell v event sd handleHeight =
     (let offset = (if sd = right then - handleHeight else handleHeight) in
      case posAtCoords v (clientX event + offset) (clientY event) of
        None \<Rightarrow> Inr (-1)
      | Some pos \<Rightarrow>
          (case cellAround v pos of
             None \<Rightarrow> Inr (-1)
           | Some cpos \<Rightarrow>
               if sd = right then Inr cpos
               else
                 (case indexOf (tm_map (tableMap (doc v))) (cpos - tableStart (doc v)) of
                    None \<Rightarrow>
                      if tm_width (tableMap (doc v)) = 1 then Inr (-1) else Inl NotANumber
                  | Some index \<Rightarrow>
                      if tm_width (tableMap (doc v)) \<noteq> 0
                         \<and> index mod tm_width (tableMap (doc v)) = 0 then Inr (-1)
                      else if index = 0 then Inl NotANumber
                      else Inr (tableStart (doc v) + tm_map (tableMap (doc v)) ! (index - 1)))))"

text \<open>Lines 136 to 144 of \<open>handleMouseMove\<close>: the cell whose edge the pointer is near.\<close>

definition hoveredCell :: "view \<Rightarrow> mouse_event \<Rightarrow> int \<Rightarrow> error + int" where
  "hoveredCell v event handleHeight =
     (case target event of
        None \<Rightarrow> Inr (-1)
      | Some (l, r) \<Rightarrow>
          if clientX event - l \<le> handleHeight then edgeCell v event left handleHeight
          else if r - clientX event \<le> handleHeight then edgeCell v event right handleHeight
          else Inr (-1))"

definition handleMouseMove :: "view \<Rightarrow> mouse_event \<Rightarrow> int \<Rightarrow> int \<Rightarrow> bool \<Rightarrow> error + view" where
  "handleMouseMove v event handleHeight cellMinHeight lastRowResizable =
     (case pluginState v of
        None \<Rightarrow> Inr v
      | Some ps \<Rightarrow>
          if truthy (draggingRow ps) then Inr v
          else
            (case hoveredCell v event handleHeight of
               Inl e \<Rightarrow> Inl e
             | Inr cell \<Rightarrow>
                 if cell \<noteq> activeHandle ps then
                   (if \<not> lastRowResizable \<and> cell \<noteq> -1 then
                      (case colCount (tableMap (doc v)) (cell - tableStart (doc v)) of
                         Inl e \<Rightarrow> Inl e
                       | Inr cc \<Rightarrow>
                           (case cellAt (doc v) cell of
                              None \<Rightarrow> Inl (NotACell cell)
                            | Some c \<Rightarrow>
                                if cc + colspan (attrs c) - 1
                                     = int (tm_width (tableMap (doc v))) - 1
                                then Inr v
                                else Inr (updateHandle v cell)))
                    else Inr (updateHandle v cell))
                 else Inr v))"

section \<open>Example documents\<close>

text \<open>
  Every cell of the examples holds one empty paragraph, so a cell takes 4 positions and a
  row of \<open>n\<close> cells \<open>4 * n + 2\<close>; the table opens at position 0 and its content starts
  at 1. The nodes that are no cells are the table, its rows and the paragraphs. No cell of
  the examples has a height yet.
\<close>

definition plain_cell :: "nat \<Rightarrow> cell_node" where
  "plain_cell r =
     \<lparr>rowIndex = r, attrs = \<lparr>colspan = 1, rowspan = 1, colwidth = None, height = Null\<rparr>\<rparr>"

text \<open>A 3 by 3 table of cells that span nothing, hovered at the first cell of row 0.\<close>

definition grid3_doc :: document where
  "grid3_doc =
     \<lparr>tableStart = 1,
      tableMap = \<lparr>tm_width = 3, tm_height = 3, tm_map = [1, 5, 9, 15, 19, 23, 29, 33, 37]\<rparr>,
      cellAt = map_of [(2, plain_cell 0), (6, plain_cell 0), (10, plain_cell 0),
                       (16, plain_cell 1), (20, plain_cell 1), (24, plain_cell 1),
                       (30, plain_cell 2), (34, plain_cell 2), (38, plain_cell 2)],
      otherNodeAt =
        (\<lambda>p. p \<in> set [0, 1, 15, 29, 3, 7, 11, 17, 21, 25, 31, 35, 39])\<rparr>"

definition grid3_view :: view where
  "grid3_view =
     \<lparr>pluginState = Some \<lparr>activeHandle = 2, draggingRow = DragFalse\<rparr>,
      doc = grid3_doc, posAtCoords = (\<lambda>x y. None), cellAround = (\<lambda>p. None),
      dispatched = [], dragListeners = False\<rparr>"

text \<open>The 3 by 3 table while the boundary of its first cell is being dragged.\<close>

definition drag3_view :: view where
  "drag3_view =
     \<lparr>pluginState =
        Some \<lparr>activeHandle = 2, draggingRow = Drag \<lparr>startY = 100, startHeight = Num 40\<rparr>\<rparr>,
      doc = grid3_doc, posAtCoords = (\<lambda>x y. None), cellAround = (\<lambda>p. None),
      dispatched = [], dragListeners = True\<rparr>"

text \<open>
  A 2 by 2 table of cells that span nothing, each painted 100 wide and 20 high, with no
  active handle. The hit test lands inside the paragraph of the cell under the point.
\<close>

definition grid2_doc :: document where
  "grid2_doc =
     \<lparr>tableStart = 1,
      tableMap = \<lparr>tm_width = 2, tm_height = 2, tm_map = [1, 5, 11, 15]\<rparr>,
      cellAt = map_of [(2, plain_cell 0), (6, plain_cell 0),
                       (12, plain_cell 1), (16, plain_cell 1)],
      otherNodeAt = (\<lambda>p. p \<in> set [0, 1, 11, 3, 7, 13, 17])\<rparr>"

definition grid2_view :: view where
  "grid2_view =
     \<lparr>pluginState = Some \<lparr>activeHandle = -1, draggingRow = DragFalse\<rparr>,
      doc = grid2_doc,
      posAtCoords =
        (\<lambda>x y. if x < 0 \<or> 200 \<le> x \<or> y < 0 \<or> 40 \<le> y then None
               else Some ((if y < 20 then 2 else 12) + (if x < 100 then 0 else 4) + 2)),
      cellAround =
        (\<lambda>p. if 2 < p \<and> p < 6 then Some 2
              else if 6 < p \<and> p < 10 then Some 6
              else if 12 < p \<and> p < 16 then Some 12
              else if 16 < p \<and> p < 20 then Some 16
              else None),
      dispatched = [], dragListeners = False\<rparr>"

text \<open>The 2 by 2 table while the boundary of the first cell of its final row is dragged.\<close>

definition drag2_view :: view where
  "drag2_view =
     grid2_view
       \<lparr>pluginState :=
          Some \<lparr>activeHandle = 12, draggingRow = Drag \<lparr>startY = 100, startHeight = Num 40\<rparr>\<rparr>,
        dragListeners := True\<rparr>"

text \<open>A table of one row and two columns, filled by a single cell of \<open>colspan\<close> 2.\<close>

definition span_view :: view where
  "span_view =
     \<lparr>pluginState = Some \<lparr>activeHandle = 2, draggingRow = DragFalse\<rparr>,
      doc = \<lparr>tableStart = 1,
             tableMap = \<lparr>tm_width = 2, tm_height = 1, tm_map = [1, 1]\<rparr>,
             cellAt = map_of [(2, \<lparr>rowIndex = 0,
                                    attrs = \<lparr>colspan = 2, rowspan = 1, colwidth = None,
                                             height = Null\<rparr>\<rparr>)],
             otherNodeAt = (\<lambda>p. p \<in> set [0, 1, 3])\<rparr>,
      posAtCoords = (\<lambda>x y. None), cellAround = (\<lambda>p. None),
      dispatched = [], dragListeners = False\<rparr>"

text \<open>
  An edit that deletes the table: it has a step, keeps positions where they are and leaves
  a document of one empty paragraph, without cells.
\<close>

definition delete_table :: transaction where
  "delete_table =
     \<lparr>meta = None, steps = [ForeignStep], mapping = (\<lambda>p. p),
      tr_doc = \<lparr>tableStart = 1,
                tableMap = \<lparr>tm_width = 0, tm_height = 0, tm_map = []\<rparr>,
                cellAt = Map.empty,
                otherNodeAt = (\<lambda>p. p = 0)\<rparr>\<rparr>"

text \<open>An edit that inserts an empty paragraph before the table and keeps its cells.\<close>

definition shift_table :: transaction where
  "shift_table =
     \<lparr>meta = None, steps = [ForeignStep], mapping = (\<lambda>p. p + 2),
      tr_doc = \<lparr>tableStart = 3,
                tableMap = \<lparr>tm_width = 2, tm_height = 2, tm_map = [1, 5, 11, 15]\<rparr>,
                cellAt = map_of [(4, plain_cell 0), (8, plain_cell 0),
                                 (14, plain_cell 1), (18, plain_cell 1)],
                otherNodeAt = (\<lambda>p. p \<in> set [0, 2, 3, 13, 5, 9, 15, 19])\<rparr>\<rparr>"

section \<open>What the loop of updateRowHeight does\<close>

lemma setNodeMarkup_Inr:
  assumes "setNodeMarkup tr p a = Inr tr'"
  shows "steps tr' = steps tr @ [SetNodeMarkup p a]"
    and "meta tr' = meta tr"
    and "mapping tr' = mapping tr"
    and "tableStart (tr_doc tr') = tableStart (tr_doc tr)"
    and "tableMap (tr_doc tr') = tableMap (tr_doc tr)"
    and "\<exists>c. cellAt (tr_doc tr) p = Some c
             \<and> cellAt (tr_doc tr') = (cellAt (tr_doc tr))(p \<mapsto> c\<lparr>attrs := a\<rparr>)"
  using assms by (auto simp: setNodeMarkup_def split: option.splits)

lemma updateRowCells_Inr:
  assumes "updateRowCells table row h cols tr = Inr tr'"
  shows "markup_positions (steps tr') = markup_positions (steps tr) @ map (rowSlot table row) cols
       \<and> meta tr' = meta tr \<and> mapping tr' = mapping tr
       \<and> tableStart (tr_doc tr') = tableStart (tr_doc tr)
       \<and> tableMap (tr_doc tr') = tableMap (tr_doc tr)
       \<and> (steps tr' = [] \<longleftrightarrow> steps tr = [] \<and> cols = [])
       \<and> (\<forall>p. cellAt (tr_doc tr') p =
               (if p \<in> rowSlot table row ` set cols
                then map_option (with_height table h p) (cellAt (tr_doc tr) p)
                else cellAt (tr_doc tr) p))
       \<and> (\<forall>i\<in>set cols. row * tm_width (tableMap table) + i < length (tm_map (tableMap table))
              \<and> cellAt table (rowSlot table row i) \<noteq> None
              \<and> cellAt (tr_doc tr) (rowSlot table row i) \<noteq> None)"
  using assms
proof (induction cols arbitrary: tr)
  case Nil
  then show ?case by simp
next
  case (Cons i cols)
  from Cons.prems obtain c tr1 where
    inr: "row * tm_width (tableMap table) + i < length (tm_map (tableMap table))"
    and c: "cellAt table (rowSlot table row i) = Some c"
    and s: "setNodeMarkup tr (rowSlot table row i) ((attrs c)\<lparr>height := h\<rparr>) = Inr tr1"
    and r: "updateRowCells table row h cols tr1 = Inr tr'"
    by (auto split: if_splits option.splits sum.splits)
  note ih = Cons.IH [OF r]
  note sn = setNodeMarkup_Inr [OF s]
  from sn(6) obtain c0 where c0: "cellAt (tr_doc tr) (rowSlot table row i) = Some c0"
    and upd: "cellAt (tr_doc tr1) = (cellAt (tr_doc tr))(rowSlot table row i \<mapsto> c0\<lparr>attrs := (attrs c)\<lparr>height := h\<rparr>\<rparr>)"
    by blast
  have mp: "markup_positions (xs @ [SetNodeMarkup p a]) = markup_positions xs @ [p]" for xs p a
    by (induction xs rule: markup_positions.induct) auto
  have dom: "cellAt (tr_doc tr) (rowSlot table row j) \<noteq> None" if "j \<in> set cols" for j
  proof (cases "rowSlot table row j = rowSlot table row i")
    case True
    then show ?thesis using c0 by simp
  next
    case False
    from ih that have "cellAt (tr_doc tr1) (rowSlot table row j) \<noteq> None" by blast
    with False show ?thesis by (simp add: upd)
  qed
  have cells: "cellAt (tr_doc tr') p =
               (if p \<in> rowSlot table row ` set (i # cols)
                then map_option (with_height table h p) (cellAt (tr_doc tr) p)
                else cellAt (tr_doc tr) p)" for p
    using ih c c0 by (auto simp: upd with_height_def)
  have rest: "markup_positions (steps tr') = markup_positions (steps tr) @ map (rowSlot table row) (i # cols)
       \<and> meta tr' = meta tr \<and> mapping tr' = mapping tr
       \<and> tableStart (tr_doc tr') = tableStart (tr_doc tr)
       \<and> tableMap (tr_doc tr') = tableMap (tr_doc tr)
       \<and> (steps tr' = [] \<longleftrightarrow> steps tr = [] \<and> i # cols = [])"
    using ih sn(1-5) by (simp add: mp)
  have pre: "\<forall>j\<in>set (i # cols). row * tm_width (tableMap table) + j < length (tm_map (tableMap table))
              \<and> cellAt table (rowSlot table row j) \<noteq> None
              \<and> cellAt (tr_doc tr) (rowSlot table row j) \<noteq> None"
    using ih inr c c0 dom by auto
  show ?case using rest cells pre by blast
qed

lemma updateRowCells_steps:
  assumes "updateRowCells table row h cols tr = Inr tr'"
  shows "otherNodeAt (tr_doc tr') = otherNodeAt (tr_doc tr)
       \<and> steps tr' = steps tr @ map (row_step table row h) cols"
  using assms
proof (induction cols arbitrary: tr)
  case Nil
  then show ?case by simp
next
  case (Cons i cols)
  from Cons.prems obtain c tr1 where
    c: "cellAt table (rowSlot table row i) = Some c"
    and s: "setNodeMarkup tr (rowSlot table row i) ((attrs c)\<lparr>height := h\<rparr>) = Inr tr1"
    and r: "updateRowCells table row h cols tr1 = Inr tr'"
    by (auto split: if_splits option.splits sum.splits)
  from s have "otherNodeAt (tr_doc tr1) = otherNodeAt (tr_doc tr)"
    and "steps tr1 = steps tr @ [row_step table row h i]"
    by (auto simp: setNodeMarkup_def row_step_def c split: option.splits)
  with Cons.IH [OF r] show ?case by simp
qed

lemma updateRowCells_succeeds:
  assumes "\<forall>i\<in>set cols. row * tm_width (tableMap table) + i < length (tm_map (tableMap table))
              \<and> cellAt table (rowSlot table row i) \<noteq> None
              \<and> cellAt (tr_doc tr) (rowSlot table row i) \<noteq> None"
  shows "\<exists>tr'. updateRowCells table row h cols tr = Inr tr'"
  using assms
proof (induction cols arbitrary: tr)
  case Nil
  then show ?case by simp
next
  case (Cons i cols)
  from Cons.prems obtain c c0 where
    inr: "row * tm_width (tableMap table) + i < length (tm_map (tableMap table))"
    and c: "cellAt table (rowSlot table row i) = Some c"
    and c0: "cellAt (tr_doc tr) (rowSlot table row i) = Some c0"
    by auto
  define tr1 where "tr1 = tr\<lparr>steps := steps tr @ [SetNodeMarkup (rowSlot table row i) ((attrs c)\<lparr>height := h\<rparr>)],
                  tr_doc := (tr_doc tr)\<lparr>cellAt := (cellAt (tr_doc tr))(rowSlot table row i \<mapsto> c0\<lparr>attrs := (attrs c)\<lparr>height := h\<rparr>\<rparr>)\<rparr>\<rparr>"
  have s: "setNodeMarkup tr (rowSlot table row i) ((attrs c)\<lparr>height := h\<rparr>) = Inr tr1"
    by (simp add: setNodeMarkup_def c0 tr1_def)
  have "\<forall>j\<in>set cols. row * tm_width (tableMap table) + j < length (tm_map (tableMap table))
              \<and> cellAt table (rowSlot table row j) \<noteq> None
              \<and> cellAt (tr_doc tr1) (rowSlot table row j) \<noteq> None"
    using Cons.prems by (simp add: tr1_def)
  from Cons.IH [OF this] obtain tr' where "updateRowCells table row h cols tr1 = Inr tr'" ..
  then show ?case using inr c s by simp
qed


lemma indexOf_None: "indexOf xs x = None \<longleftrightarrow> x \<notin> set xs"
  by (induction xs) (auto split: option.splits)

lemma colCount_Inr: "(\<exists>k. colCount m pos = Inr k) \<longleftrightarrow> pos \<in> set (tm_map m)"
  using indexOf_None [of "tm_map m" pos]
  by (auto simp: colCount_def split: option.splits)

lemma rowHeightEdit_Inr:
  assumes "rowHeightEdit v cell h = Inr tr"
  shows "\<exists>c. cellAt (doc v) cell = Some c
           \<and> cell - tableStart (doc v) \<in> set (tm_map (tableMap (doc v)))
           \<and> updateRowCells (doc v) (rowIndex c) h [0..<tm_width (tableMap (doc v))] (state_tr v)
               = Inr tr"
proof -
  from assms obtain k where "colCount (tableMap (doc v)) (cell - tableStart (doc v)) = Inr k"
    by (auto simp: rowHeightEdit_def split: sum.splits)
  moreover from this have "cell - tableStart (doc v) \<in> set (tm_map (tableMap (doc v)))"
    using colCount_Inr by blast
  ultimately show ?thesis using assms
    by (auto simp: rowHeightEdit_def split: option.splits)
qed

lemma rowHeightEdit_succeeds:
  assumes "cell - tableStart (doc v) \<in> set (tm_map (tableMap (doc v)))"
    and "cellAt (doc v) cell = Some c"
    and "\<forall>i<tm_width (tableMap (doc v)).
           rowIndex c * tm_width (tableMap (doc v)) + i < length (tm_map (tableMap (doc v)))
           \<and> cellAt (doc v) (rowSlot (doc v) (rowIndex c) i) \<noteq> None"
  shows "\<exists>tr. rowHeightEdit v cell h = Inr tr"
proof -
  from assms(1) obtain k where k: "colCount (tableMap (doc v)) (cell - tableStart (doc v)) = Inr k"
    using colCount_Inr by blast
  have "\<exists>tr. updateRowCells (doc v) (rowIndex c) h [0..<tm_width (tableMap (doc v))] (state_tr v) = Inr tr"
    by (rule updateRowCells_succeeds) (use assms(3) in \<open>simp add: state_tr_def\<close>)
  then show ?thesis by (simp add: rowHeightEdit_def k assms(2))
qed

lemma updateRowHeight_doc:
  assumes e: "rowHeightEdit v cell h = Inr tr"
  shows "updateRowHeight v cell h = Inr (if docChanged tr then dispatch v tr else v)"
    and "doc (if docChanged tr then dispatch v tr else v) = tr_doc tr"
proof -
  show "updateRowHeight v cell h = Inr (if docChanged tr then dispatch v tr else v)"
    by (simp add: updateRowHeight_def e)
  from rowHeightEdit_Inr [OF e] obtain c :: cell_node where
    u: "updateRowCells (doc v) (rowIndex c) h [0..<tm_width (tableMap (doc v))] (state_tr v) = Inr tr"
    by blast
  note r = updateRowCells_Inr [OF u]
  show "doc (if docChanged tr then dispatch v tr else v) = tr_doc tr"
  proof (cases "docChanged tr")
    case True
    then show ?thesis by (simp add: dispatch_def)
  next
    case False
    with r have "tm_width (tableMap (doc v)) = 0" by (simp add: docChanged_def state_tr_def)
    with u have "tr = state_tr v" by simp
    with False show ?thesis by (simp add: state_tr_def)
  qed
qed

section \<open>Hovering with lastRowResizable off\<close>

text \<open>
  C1. With \<open>lastRowResizable = false\<close> the source compares the column of the hovered
  cell with the last column of the table, not its row with the last row. On the 2 by 2
  table with no active handle, a pointer 2 pixels inside the right edge of the first cell
  of the final row (row 1 of 2) activates that cell as the handle, 12, although the option
  is off; a pointer at the same distance from the right edge of the last cell of row 0,
  which is not in the final row, is refused and the state stays without handle.
\<close>

theorem handleMouseMove_final_row_not_guarded:
  "map_sum id pluginState
     (handleMouseMove grid2_view \<lparr>clientX = 98, clientY = 30, target = Some (0, 100)\<rparr> 5 25 False)
     = Inr (Some \<lparr>activeHandle = 12, draggingRow = DragFalse\<rparr>)
   \<and> map_option rowIndex (cellAt grid2_doc 12) = Some 1
   \<and> tm_height (tableMap grid2_doc) = 2
   \<and> map_sum id pluginState
     (handleMouseMove grid2_view \<lparr>clientX = 198, clientY = 10, target = Some (100, 200)\<rparr> 5 25 False)
     = Inr (Some \<lparr>activeHandle = -1, draggingRow = DragFalse\<rparr>)"
  by (simp add: handleMouseMove_def grid2_view_def grid2_doc_def hoveredCell_def edgeCell_def
      colCount_def plain_cell_def updateHandle_def dispatch_def setMeta_def state_tr_def
      RowResizeState_apply_def)

section \<open>Properties of the committed edit\<close>

text \<open>
  C2, as the claim states it, fails on the table of one cell of \<open>colspan\<close> 2: two
  calls with the same height dispatch two transactions, and each sets the markup of the
  one cell, at position 2, twice.
\<close>

theorem updateRowHeight_span_updated_per_column:
  "committed_positions (updateRowHeight_twice span_view 2 (Num 80)) = Inr [[2, 2], [2, 2]]"
  by (simp add: committed_positions_def updateRowHeight_twice_def updateRowHeight_def
      rowHeightEdit_def span_view_def colCount_def upt_rec rowSlot_def setNodeMarkup_def
      state_tr_def docChanged_def dispatch_def)

text \<open>
  C2, as the code has it. When a call of \<open>updateRowHeight\<close> returns, a second call with
  the same handle and height returns too and leaves the document of the first call as it
  is. The edit of a call holds one attribute update for each column slot of the row, in
  column order: a cell spanning several columns of the row is updated once for every
  column it spans, each time with the same attributes.
\<close>

theorem updateRowHeight_twice_same_document:
  assumes "updateRowHeight v cell h = Inr v1"
  shows "(\<exists>v2. updateRowHeight v1 cell h = Inr v2 \<and> doc v2 = doc v1)
       \<and> (\<exists>c tr. cellAt (doc v) cell = Some c \<and> rowHeightEdit v cell h = Inr tr
             \<and> markup_positions (steps tr)
                 = map (rowSlot (doc v) (rowIndex c)) [0..<tm_width (tableMap (doc v))]
             \<and> (\<forall>p a a'. SetNodeMarkup p a \<in> set (steps tr)
                    \<and> SetNodeMarkup p a' \<in> set (steps tr) \<longrightarrow> a = a'))"
proof -
  from assms obtain tr where e: "rowHeightEdit v cell h = Inr tr"
    by (auto simp: updateRowHeight_def split: sum.splits)
  from rowHeightEdit_Inr [OF e] obtain c where c: "cellAt (doc v) cell = Some c"
    and inmap: "cell - tableStart (doc v) \<in> set (tm_map (tableMap (doc v)))"
    and u: "updateRowCells (doc v) (rowIndex c) h [0..<tm_width (tableMap (doc v))] (state_tr v) = Inr tr"
    by blast
  note r = updateRowCells_Inr [OF u]
  let ?w = "tm_width (tableMap (doc v))"
  let ?S = "rowSlot (doc v) (rowIndex c) ` {..<?w}"
  have d1: "doc v1 = tr_doc tr"
    using updateRowHeight_doc [OF e] assms by simp
  have st: "tableStart (doc v1) = tableStart (doc v)" and tm: "tableMap (doc v1) = tableMap (doc v)"
    using r by (simp_all add: d1 state_tr_def)
  have cells1: "cellAt (doc v1) p =
          (if p \<in> ?S then map_option (with_height (doc v) h p) (cellAt (doc v) p)
           else cellAt (doc v) p)" for p
    using r by (simp add: d1 state_tr_def atLeast0LessThan)
  have slots: "\<forall>i<?w. rowIndex c * ?w + i < length (tm_map (tableMap (doc v)))
           \<and> cellAt (doc v) (rowSlot (doc v) (rowIndex c) i) \<noteq> None"
    using r by (simp add: state_tr_def)
  have rs: "rowSlot (doc v1) = rowSlot (doc v)"
    by (intro ext) (simp add: rowSlot_def st tm)
  have "\<exists>c1. cellAt (doc v1) cell = Some c1 \<and> rowIndex c1 = rowIndex c"
    using c by (simp add: cells1 with_height_def)
  then obtain c1 where c1: "cellAt (doc v1) cell = Some c1" and ri: "rowIndex c1 = rowIndex c"
    by blast
  have slots1: "\<forall>i<tm_width (tableMap (doc v1)).
           rowIndex c1 * tm_width (tableMap (doc v1)) + i < length (tm_map (tableMap (doc v1)))
           \<and> cellAt (doc v1) (rowSlot (doc v1) (rowIndex c1) i) \<noteq> None"
    using slots by (auto simp: rs ri tm cells1)
  have inmap1: "cell - tableStart (doc v1) \<in> set (tm_map (tableMap (doc v1)))"
    using inmap by (simp add: st tm)
  from rowHeightEdit_succeeds [OF inmap1 c1 slots1] obtain tr2 where
    e2: "rowHeightEdit v1 cell h = Inr tr2" by blast
  from rowHeightEdit_Inr [OF e2] c1 have
    u2: "updateRowCells (doc v1) (rowIndex c1) h [0..<tm_width (tableMap (doc v1))] (state_tr v1) = Inr tr2"
    by auto
  note r2 = updateRowCells_Inr [OF u2]
  define v2 where "v2 = (if docChanged tr2 then dispatch v1 tr2 else v1)"
  have v2: "updateRowHeight v1 cell h = Inr v2" and d2: "doc v2 = tr_doc tr2"
    using updateRowHeight_doc [OF e2] by (simp_all add: v2_def)
  have cells2: "cellAt (doc v2) p =
          (if p \<in> ?S then map_option (with_height (doc v1) h p) (cellAt (doc v1) p)
           else cellAt (doc v1) p)" for p
    using r2 by (simp add: d2 state_tr_def atLeast0LessThan rs ri tm)
  have "cellAt (doc v2) p = cellAt (doc v1) p" for p
  proof (cases "p \<in> ?S")
    case True
    then show ?thesis
      by (cases "cellAt (doc v) p") (simp_all add: cells2 cells1 with_height_def)
  next
    case False
    then show ?thesis by (simp add: cells2)
  qed
  then have "cellAt (doc v2) = cellAt (doc v1)" by (rule ext)
  moreover have "tableStart (doc v2) = tableStart (doc v1)" "tableMap (doc v2) = tableMap (doc v1)"
    using r2 by (simp_all add: d2 state_tr_def)
  moreover have "otherNodeAt (doc v2) = otherNodeAt (doc v1)"
    using updateRowCells_steps [OF u2] by (simp add: d2 state_tr_def)
  moreover have "document.more (doc v2) = document.more (doc v1)" by simp
  ultimately have "doc v2 = doc v1" by (simp add: document.equality)
  with v2 have A: "\<exists>v2. updateRowHeight v1 cell h = Inr v2 \<and> doc v2 = doc v1" by blast
  have B: "markup_positions (steps tr) = map (rowSlot (doc v) (rowIndex c)) [0..<?w]"
    using r by (simp add: state_tr_def)
  have "steps tr = map (row_step (doc v) (rowIndex c) h) [0..<?w]"
    using updateRowCells_steps [OF u] by (simp add: state_tr_def)
  then have C: "a = a'"
    if "SetNodeMarkup p a \<in> set (steps tr)" and "SetNodeMarkup p a' \<in> set (steps tr)"
    for p a a'
    using that by (auto simp: row_step_def)
  from A B C c e show ?thesis by blast
qed

text \<open>
  C2, witness: on the 3 by 3 table the first call commits the positions 2, 6 and 10, and
  the second call leaves the document alone.
\<close>

theorem updateRowHeight_twice_same_document_witness:
  "committed_positions (updateRowHeight grid3_view 2 (Num 80)) = Inr [[2, 6, 10]]
   \<and> (\<exists>v1 v2. updateRowHeight grid3_view 2 (Num 80) = Inr v1
        \<and> updateRowHeight v1 2 (Num 80) = Inr v2 \<and> doc v2 = doc v1)"
proof -
  obtain v1 where v1: "updateRowHeight grid3_view 2 (Num 80) = Inr v1"
    by (simp add: updateRowHeight_def rowHeightEdit_def grid3_view_def grid3_doc_def plain_cell_def colCount_def upt_rec rowSlot_def
        setNodeMarkup_def state_tr_def)
  from updateRowHeight_twice_same_document [OF v1]
  have "\<exists>v2. updateRowHeight v1 2 (Num 80) = Inr v2 \<and> doc v2 = doc v1" by blast
  moreover have "committed_positions (updateRowHeight grid3_view 2 (Num 80)) = Inr [[2, 6, 10]]"
    by (simp add: committed_positions_def updateRowHeight_def rowHeightEdit_def grid3_view_def grid3_doc_def plain_cell_def
        colCount_def upt_rec rowSlot_def setNodeMarkup_def state_tr_def docChanged_def dispatch_def)
  ultimately show ?thesis using v1 by blast
qed

text \<open>
  C6. When the handle points at a cell \<open>c\<close> of the table and every slot of the row of
  \<open>c\<close> holds a cell, \<open>updateRowHeight\<close> returns, and in the document it leaves, every
  cell that occupies a slot of that row (a cell whose span reaches into the row occupies
  one) has the new height and otherwise the attributes it had, while every position that
  occupies no slot of the row holds what it held.
\<close>

theorem updateRowHeight_sets_row:
  assumes inmap: "cell - tableStart (doc v) \<in> set (tm_map (tableMap (doc v)))"
    and c: "cellAt (doc v) cell = Some c"
    and slots: "\<forall>i<tm_width (tableMap (doc v)).
           rowIndex c * tm_width (tableMap (doc v)) + i < length (tm_map (tableMap (doc v)))
           \<and> cellAt (doc v) (rowSlot (doc v) (rowIndex c) i) \<noteq> None"
  shows "\<exists>v'. updateRowHeight v cell h = Inr v'
           \<and> (\<forall>i<tm_width (tableMap (doc v)).
                 \<exists>c0. cellAt (doc v) (rowSlot (doc v) (rowIndex c) i) = Some c0
                    \<and> cellAt (doc v') (rowSlot (doc v) (rowIndex c) i)
                         = Some (c0\<lparr>attrs := (attrs c0)\<lparr>height := h\<rparr>\<rparr>))
           \<and> (\<forall>p. p \<notin> rowSlot (doc v) (rowIndex c) ` {..<tm_width (tableMap (doc v))}
                    \<longrightarrow> cellAt (doc v') p = cellAt (doc v) p)
           \<and> tableStart (doc v') = tableStart (doc v)
           \<and> tableMap (doc v') = tableMap (doc v)"
proof -
  from rowHeightEdit_succeeds [OF inmap c slots] obtain tr where e: "rowHeightEdit v cell h = Inr tr"
    by blast
  from rowHeightEdit_Inr [OF e] c have
    u: "updateRowCells (doc v) (rowIndex c) h [0..<tm_width (tableMap (doc v))] (state_tr v) = Inr tr"
    by auto
  note r = updateRowCells_Inr [OF u]
  define v' where "v' = (if docChanged tr then dispatch v tr else v)"
  have v': "updateRowHeight v cell h = Inr v'" and d: "doc v' = tr_doc tr"
    using updateRowHeight_doc [OF e] by (simp_all add: v'_def)
  have cells: "cellAt (doc v') p =
          (if p \<in> rowSlot (doc v) (rowIndex c) ` {..<tm_width (tableMap (doc v))}
           then map_option (with_height (doc v) h p) (cellAt (doc v) p)
           else cellAt (doc v) p)" for p
    using r by (simp add: d state_tr_def atLeast0LessThan)
  have 1: "\<exists>c0. cellAt (doc v) (rowSlot (doc v) (rowIndex c) i) = Some c0
                    \<and> cellAt (doc v') (rowSlot (doc v) (rowIndex c) i)
                         = Some (c0\<lparr>attrs := (attrs c0)\<lparr>height := h\<rparr>\<rparr>)"
    if "i < tm_width (tableMap (doc v))" for i
  proof -
    from slots that obtain c0 where c0: "cellAt (doc v) (rowSlot (doc v) (rowIndex c) i) = Some c0"
      by auto
    with that show ?thesis by (simp add: cells with_height_def)
  qed
  have 2: "cellAt (doc v') p = cellAt (doc v) p"
    if "p \<notin> rowSlot (doc v) (rowIndex c) ` {..<tm_width (tableMap (doc v))}" for p
    using that by (simp add: cells)
  have 3: "tableStart (doc v') = tableStart (doc v)" "tableMap (doc v') = tableMap (doc v)"
    using r by (simp_all add: d state_tr_def)
  show ?thesis using v' 1 2 3 by blast
qed

text \<open>
  C6, witness: on the 3 by 3 table, resizing at the first cell of row 0 to 80 gives the
  three cells of row 0 the height 80, their other attributes as before, and leaves the
  six cells of rows 1 and 2 as they were.
\<close>

theorem updateRowHeight_sets_row_witness:
  "\<exists>v'. updateRowHeight grid3_view 2 (Num 80) = Inr v'
      \<and> map (cellAt (doc v')) [2, 6, 10]
           = replicate 3
               (Some \<lparr>rowIndex = 0,
                      attrs = \<lparr>colspan = 1, rowspan = 1, colwidth = None, height = Num 80\<rparr>\<rparr>)
      \<and> map (cellAt (doc v')) [16, 20, 24] = replicate 3 (Some (plain_cell 1))
      \<and> map (cellAt (doc v')) [30, 34, 38] = replicate 3 (Some (plain_cell 2))
      \<and> cellAt (doc v') 3 = None"
proof -
  let ?d = "doc grid3_view"
  let ?r = "rowIndex (plain_cell 0)"
  have w: "tm_width (tableMap ?d) = 3"
    by (simp add: grid3_view_def grid3_doc_def)
  have S: "rowSlot ?d ?r ` {..<3} = {2, 6, 10}"
    by (auto simp: grid3_view_def grid3_doc_def plain_cell_def rowSlot_def lessThan_nat_numeral
        lessThan_Suc numeral_3_eq_3)
  have slot: "rowSlot ?d ?r 0 = 2" "rowSlot ?d ?r 1 = 6" "rowSlot ?d ?r 2 = 10"
    by (simp_all add: grid3_view_def grid3_doc_def plain_cell_def rowSlot_def)
  have slots: "\<forall>i<tm_width (tableMap ?d).
           ?r * tm_width (tableMap ?d) + i < length (tm_map (tableMap ?d))
           \<and> cellAt ?d (rowSlot ?d ?r i) \<noteq> None"
    unfolding w
    by (simp add: grid3_view_def grid3_doc_def plain_cell_def rowSlot_def less_Suc_eq
        numeral_3_eq_3)
  have inmap: "2 - tableStart ?d \<in> set (tm_map (tableMap ?d))"
    and c: "cellAt ?d 2 = Some (plain_cell 0)"
    by (simp_all add: grid3_view_def grid3_doc_def)
  from updateRowHeight_sets_row [OF inmap c slots, of "Num 80"]
  obtain v' where v': "updateRowHeight grid3_view 2 (Num 80) = Inr v'"
    and row: "\<forall>i<3. \<exists>c0. cellAt ?d (rowSlot ?d ?r i) = Some c0
                 \<and> cellAt (doc v') (rowSlot ?d ?r i)
                      = Some (c0\<lparr>attrs := (attrs c0)\<lparr>height := Num 80\<rparr>\<rparr>)"
    and others: "\<forall>p. p \<notin> {2, 6, 10} \<longrightarrow> cellAt (doc v') p = cellAt ?d p"
    unfolding w S by blast
  have cells: "cellAt ?d 2 = Some (plain_cell 0)" "cellAt ?d 6 = Some (plain_cell 0)"
    "cellAt ?d 10 = Some (plain_cell 0)"
    by (simp_all add: grid3_view_def grid3_doc_def)
  let ?c80 = "(plain_cell 0)\<lparr>attrs := (attrs (plain_cell 0))\<lparr>height := Num 80\<rparr>\<rparr>"
  from row have "cellAt (doc v') 2 = Some ?c80"
    using slot(1) cells(1) by (auto dest!: spec [of _ 0])
  moreover from row have "cellAt (doc v') 6 = Some ?c80"
    using slot(2) cells(2) by (auto dest!: spec [of _ 1])
  moreover from row have "cellAt (doc v') 10 = Some ?c80"
    using slot(3) cells(3) by (auto dest!: spec [of _ 2])
  moreover from others have "cellAt (doc v') 16 = cellAt grid3_doc 16"
    "cellAt (doc v') 20 = cellAt grid3_doc 20" "cellAt (doc v') 24 = cellAt grid3_doc 24"
    "cellAt (doc v') 30 = cellAt grid3_doc 30" "cellAt (doc v') 34 = cellAt grid3_doc 34"
    "cellAt (doc v') 38 = cellAt grid3_doc 38" "cellAt (doc v') 3 = cellAt grid3_doc 3"
    by (simp_all add: grid3_view_def)
  ultimately show ?thesis using v'
    by (simp add: grid3_doc_def plain_cell_def numeral_3_eq_3)
qed

section \<open>Document edits and the active handle\<close>

text \<open>
  C3. A drag is in progress at handle 12 of the 2 by 2 table when an edit deletes the
  table: the edit changes the document and the remapped position points at no cell. The
  state that \<open>apply\<close> returns has no handle but still holds the drag session, where the
  claim has the drag abandoned; the set-handle branch and the initial state pair the
  handle -1 with \<open>draggingRow = false\<close>. In the view that results, \<open>finish\<close> fails
  (\<open>updateRowHeight\<close> is called with -1), so the session is never cleared, and the
  handlers of \<open>mousemove\<close>, \<open>mouseleave\<close> and \<open>mousedown\<close> leave the view as it is.
  The remapping itself is as the claim has it: an edit that shifts the table moves the
  handle to 14 and keeps the session.
\<close>

theorem apply_invalid_handle_keeps_drag:
  "docChanged delete_table
   \<and> \<not> pointsAtCell (tr_doc delete_table) (mapping delete_table 12)
   \<and> RowResizeState_apply
        \<lparr>activeHandle = 12, draggingRow = Drag \<lparr>startY = 100, startHeight = Num 40\<rparr>\<rparr>
        delete_table
      = \<lparr>activeHandle = -1, draggingRow = Drag \<lparr>startY = 100, startHeight = Num 40\<rparr>\<rparr>
   \<and> RowResizeState_apply
        \<lparr>activeHandle = 12, draggingRow = Drag \<lparr>startY = 100, startHeight = Num 40\<rparr>\<rparr>
        shift_table
      = \<lparr>activeHandle = 14, draggingRow = Drag \<lparr>startY = 100, startHeight = Num 40\<rparr>\<rparr>
   \<and> pluginState (dispatch drag2_view delete_table)
      = Some \<lparr>activeHandle = -1, draggingRow = Drag \<lparr>startY = 100, startHeight = Num 40\<rparr>\<rparr>
   \<and> isl (finish (dispatch drag2_view delete_table)
             \<lparr>clientX = 50, clientY = 130, target = None\<rparr> 25)
   \<and> handleMouseMove (dispatch drag2_view delete_table)
        \<lparr>clientX = 98, clientY = 30, target = Some (0, 100)\<rparr> 5 25 True
      = Inr (dispatch drag2_view delete_table)
   \<and> handleMouseLeave (dispatch drag2_view delete_table) = dispatch drag2_view delete_table
   \<and> handleMouseDown (dispatch drag2_view delete_table)
        \<lparr>clientX = 98, clientY = 30, target = Some (0, 100)\<rparr> 25
      = Inr (False, dispatch drag2_view delete_table)"
proof -
  let ?s = "\<lparr>activeHandle = 12, draggingRow = Drag \<lparr>startY = 100, startHeight = Num 40\<rparr>\<rparr>"
  let ?s' = "\<lparr>activeHandle = -1, draggingRow = Drag \<lparr>startY = 100, startHeight = Num 40\<rparr>\<rparr>"
  let ?v = "dispatch drag2_view delete_table"
  have a: "RowResizeState_apply ?s delete_table = ?s'"
    by (simp add: RowResizeState_apply_def delete_table_def docChanged_def pointsAtCell_def)
  have b: "RowResizeState_apply ?s shift_table
             = \<lparr>activeHandle = 14, draggingRow = Drag \<lparr>startY = 100, startHeight = Num 40\<rparr>\<rparr>"
    by (simp add: RowResizeState_apply_def shift_table_def docChanged_def pointsAtCell_def)
  have ps: "pluginState ?v = Some ?s'"
    by (simp add: dispatch_def drag2_view_def a)
  have d: "tm_map (tableMap (doc ?v)) = []"
    by (simp add: dispatch_def delete_table_def)
  have f: "isl (finish ?v \<lparr>clientX = 50, clientY = 130, target = None\<rparr> 25)"
    by (simp add: finish_def ps updateRowHeight_def rowHeightEdit_def colCount_def d)
  have m: "handleMouseMove ?v \<lparr>clientX = 98, clientY = 30, target = Some (0, 100)\<rparr> 5 25 True
             = Inr ?v"
    by (simp add: handleMouseMove_def ps)
  have l: "handleMouseLeave ?v = ?v"
    by (simp add: handleMouseLeave_def ps)
  have dn: "handleMouseDown ?v \<lparr>clientX = 98, clientY = 30, target = Some (0, 100)\<rparr> 25
              = Inr (False, ?v)"
    by (simp add: handleMouseDown_def ps)
  have "docChanged delete_table"
    and "\<not> pointsAtCell (tr_doc delete_table) (mapping delete_table 12)"
    by (simp_all add: delete_table_def docChanged_def pointsAtCell_def)
  with a b ps f m l dn show ?thesis by simp
qed

text \<open>
  C9. Whatever the previous state, a transaction whose action sets the handle gives a state
  with \<open>draggingRow = false\<close> (and the handle of the action).
\<close>

theorem apply_setHandle_discards_drag:
  assumes "meta tr = Some a" and "setHandle a = Some h"
  shows "draggingRow (RowResizeState_apply s tr) = DragFalse
         \<and> activeHandle (RowResizeState_apply s tr) = h"
  using assms by (simp add: RowResizeState_apply_def)

text \<open>
  C9, witness: clearing the handle in the middle of a drag.
\<close>

theorem apply_setHandle_discards_drag_witness:
  "draggingRow
     (RowResizeState_apply
        \<lparr>activeHandle = 12, draggingRow = Drag \<lparr>startY = 100, startHeight = Num 40\<rparr>\<rparr>
        \<lparr>meta = Some \<lparr>setHandle = Some (-1), setDraggingRow = None\<rparr>, steps = [],
         mapping = (\<lambda>p. p),
         tr_doc = \<lparr>tableStart = 1,
                   tableMap = \<lparr>tm_width = 0, tm_height = 0, tm_map = []\<rparr>,
                   cellAt = Map.empty, otherNodeAt = (\<lambda>p. p = 0)\<rparr>\<rparr>) = DragFalse"
  using apply_setHandle_discards_drag
          [of "\<lparr>meta = Some \<lparr>setHandle = Some (-1), setDraggingRow = None\<rparr>, steps = [],
                 mapping = (\<lambda>p. p),
                 tr_doc = \<lparr>tableStart = 1,
                           tableMap = \<lparr>tm_width = 0, tm_height = 0, tm_map = []\<rparr>,
                           cellAt = Map.empty, otherNodeAt = (\<lambda>p. p = 0)\<rparr>\<rparr>"
              "\<lparr>setHandle = Some (-1), setDraggingRow = None\<rparr>" "-1"]
  by simp

text \<open>
  C10. A transaction without plugin action returns the previous state itself when the
  active handle is -1 or the document did not change.
\<close>

theorem apply_no_action_unchanged:
  assumes "no_action tr" and "activeHandle s = -1 \<or> \<not> docChanged tr"
  shows "RowResizeState_apply s tr = s"
  using assms
  by (auto simp: RowResizeState_apply_def no_action_def split: option.splits)

text \<open>
  C10, witness: an edit of the document while no handle is active, and a transaction
  without steps during a drag.
\<close>

theorem apply_no_action_unchanged_witness:
  "no_action delete_table \<and> docChanged delete_table
   \<and> RowResizeState_apply \<lparr>activeHandle = -1, draggingRow = DragFalse\<rparr> delete_table
       = \<lparr>activeHandle = -1, draggingRow = DragFalse\<rparr>
   \<and> no_action (state_tr grid2_view) \<and> \<not> docChanged (state_tr grid2_view)
   \<and> RowResizeState_apply
        \<lparr>activeHandle = 12, draggingRow = Drag \<lparr>startY = 100, startHeight = Num 40\<rparr>\<rparr>
        (state_tr grid2_view)
       = \<lparr>activeHandle = 12, draggingRow = Drag \<lparr>startY = 100, startHeight = Num 40\<rparr>\<rparr>"
proof -
  have d: "no_action delete_table" "docChanged delete_table"
    and s: "no_action (state_tr grid2_view)" "\<not> docChanged (state_tr grid2_view)"
    by (simp_all add: no_action_def docChanged_def delete_table_def state_tr_def)
  show ?thesis
    using d s
      apply_no_action_unchanged [OF d(1), of "\<lparr>activeHandle = -1, draggingRow = DragFalse\<rparr>"]
      apply_no_action_unchanged [OF s(1),
        of "\<lparr>activeHandle = 12, draggingRow = Drag \<lparr>startY = 100, startHeight = Num 40\<rparr>\<rparr>"]
    by simp
qed

section \<open>Pointer-down, dragging and mouse-leave\<close>

text \<open>
  C4, as the claim states it, fails on the 3 by 3 table, whose cells have no height yet:
  with \<open>cellMinHeight = 25\<close>, pointer-down at the handle 2 captures the unset height
  itself as \<open>startHeight\<close>, not 25.
\<close>

theorem handleMouseDown_unset_height_not_defaulted:
  "map_option (height \<circ> attrs) (cellAt (doc grid3_view) 2) = Some Null
   \<and> map_sum id (pluginState \<circ> snd)
       (handleMouseDown grid3_view \<lparr>clientX = 50, clientY = 130, target = Some (0, 100)\<rparr> 25)
     = Inr (Some \<lparr>activeHandle = 2,
                  draggingRow = Drag \<lparr>startY = 130, startHeight = Null\<rparr>\<rparr>)"
  by (simp add: handleMouseDown_def nodeAt_height_def grid3_view_def grid3_doc_def
      plain_cell_def dispatch_def setMeta_def state_tr_def RowResizeState_apply_def)

text \<open>
  C4, as the code has it. Pointer-down while hovering a handle that points at a cell
  returns \<open>true\<close>, installs the listeners, leaves the document alone and enters the
  dragging state with \<open>startY\<close> the pointer's Y and \<open>startHeight\<close> the \<open>height\<close>
  attribute of that cell as the document holds it; no default is applied.
\<close>

theorem handleMouseDown_captures_height:
  assumes "pluginState v = Some ps" and "activeHandle ps \<noteq> -1"
    and "\<not> truthy (draggingRow ps)" and "cellAt (doc v) (activeHandle ps) = Some c"
  shows "\<exists>v'. handleMouseDown v e cellMinHeight = Inr (True, v')
           \<and> pluginState v' =
               Some \<lparr>activeHandle = activeHandle ps,
                     draggingRow = Drag \<lparr>startY = clientY e, startHeight = height (attrs c)\<rparr>\<rparr>
           \<and> doc v' = doc v \<and> dragListeners v'"
  using assms
  by (simp add: handleMouseDown_def nodeAt_height_def dispatch_def setMeta_def state_tr_def
      RowResizeState_apply_def)

text \<open>
  C4, witness: pointer-down at Y = 130 on the hovered 3 by 3 table.
\<close>

theorem handleMouseDown_captures_height_witness:
  "\<exists>v'. handleMouseDown grid3_view \<lparr>clientX = 50, clientY = 130, target = Some (0, 100)\<rparr> 25
           = Inr (True, v')
        \<and> pluginState v' =
            Some \<lparr>activeHandle = 2,
                  draggingRow = Drag \<lparr>startY = 130, startHeight = Null\<rparr>\<rparr>"
proof -
  have "pluginState grid3_view = Some \<lparr>activeHandle = 2, draggingRow = DragFalse\<rparr>"
    and "cellAt (doc grid3_view) 2 = Some (plain_cell 0)"
    by (simp_all add: grid3_view_def grid3_doc_def)
  from handleMouseDown_captures_height
         [where e = "\<lparr>clientX = 50, clientY = 130, target = Some (0, 100)\<rparr>"
            and cellMinHeight = 25, OF this(1) _ _]
       this(2)
  show ?thesis by (auto simp: plain_cell_def)
qed

text \<open>
  C5. For every drag session with a numeric start height and every pointer position, the
  dragged height is \<open>max(cellMinHeight, startHeight + (clientY - startY))\<close>; with start
  height 40, start Y 100 and minimum 25, a pointer at Y = 130 gives 70 and a pointer at
  Y = 0 gives 25.
\<close>

theorem draggedHeight_formula:
  "draggedHeight \<lparr>startY = y0, startHeight = Num h0\<rparr> e cellMinHeight
     = Num (max cellMinHeight (h0 + (clientY e - y0)))
   \<and> draggedHeight \<lparr>startY = 100, startHeight = Num 40\<rparr>
        \<lparr>clientX = x, clientY = 130, target = t\<rparr> 25 = Num 70
   \<and> draggedHeight \<lparr>startY = 100, startHeight = Num 40\<rparr>
        \<lparr>clientX = x, clientY = 0, target = t\<rparr> 25 = Num 25"
  by (simp add: draggedHeight_def Math_max_def js_add_def)

text \<open>
  C7. Pointer-down while there is no active handle, or while a drag is in progress,
  returns \<open>false\<close> without an error and leaves the view, and so the interaction state,
  as it was.
\<close>

theorem handleMouseDown_rejected:
  assumes "pluginState v = Some ps" and "activeHandle ps = -1 \<or> truthy (draggingRow ps)"
  shows "handleMouseDown v e cellMinHeight = Inr (False, v)"
  using assms by (auto simp: handleMouseDown_def)

text \<open>
  C7, witness: pointer-down on the 2 by 2 table without handle, and on the 3 by 3 table
  in the middle of a drag.
\<close>

theorem handleMouseDown_rejected_witness:
  "handleMouseDown grid2_view \<lparr>clientX = 50, clientY = 130, target = None\<rparr> 25
     = Inr (False, grid2_view)
   \<and> handleMouseDown drag3_view \<lparr>clientX = 50, clientY = 130, target = None\<rparr> 25
     = Inr (False, drag3_view)"
  using handleMouseDown_rejected
          [of grid2_view "\<lparr>activeHandle = -1, draggingRow = DragFalse\<rparr>"
              "\<lparr>clientX = 50, clientY = 130, target = None\<rparr>" 25]
        handleMouseDown_rejected
          [of drag3_view
              "\<lparr>activeHandle = 2, draggingRow = Drag \<lparr>startY = 100, startHeight = Num 40\<rparr>\<rparr>"
              "\<lparr>clientX = 50, clientY = 130, target = None\<rparr>" 25]
  by (simp add: grid2_view_def drag3_view_def)

text \<open>
  C8. Mouse-leave during a drag leaves the view as it is, drag session included;
  mouse-leave while a handle is hovered and nothing is dragged gives the state without
  handle, \<open>activeHandle = -1\<close> and \<open>draggingRow = false\<close>. The other two handlers
  routed through the editing surface, \<open>mousemove\<close> and \<open>mousedown\<close>, leave a view that
  is dragging as it is as well, so of the plugin's handlers only \<open>finish\<close>, installed on
  the window for pointer-up, is left to end a drag.
\<close>

theorem handleMouseLeave_cases:
  "(pluginState v = Some ps \<and> truthy (draggingRow ps) \<longrightarrow> handleMouseLeave v = v)
   \<and> (pluginState v = Some ps \<and> activeHandle ps > -1 \<and> \<not> truthy (draggingRow ps)
        \<longrightarrow> pluginState (handleMouseLeave v)
              = Some \<lparr>activeHandle = -1, draggingRow = DragFalse\<rparr>)
   \<and> (pluginState v = Some ps \<and> truthy (draggingRow ps)
        \<longrightarrow> handleMouseMove v e handleHeight cellMinHeight lastRowResizable = Inr v
            \<and> handleMouseDown v e cellMinHeight = Inr (False, v))"
  by (simp add: handleMouseLeave_def updateHandle_def dispatch_def setMeta_def state_tr_def
      RowResizeState_apply_def handleMouseMove_def handleMouseDown_def)

text \<open>
  C8, witness: mouse-leave on the 3 by 3 table during a drag, and while hovering.
\<close>

theorem handleMouseLeave_cases_witness:
  "handleMouseLeave drag3_view = drag3_view
   \<and> pluginState (handleMouseLeave grid3_view)
       = Some \<lparr>activeHandle = -1, draggingRow = DragFalse\<rparr>
   \<and> handleMouseMove drag3_view \<lparr>clientX = 50, clientY = 130, target = None\<rparr> 5 25 True
       = Inr drag3_view"
  using handleMouseLeave_cases
          [of drag3_view
              "\<lparr>activeHandle = 2, draggingRow = Drag \<lparr>startY = 100, startHeight = Num 40\<rparr>\<rparr>"
              "\<lparr>clientX = 50, clientY = 130, target = None\<rparr>" 5 25 True]
        handleMouseLeave_cases
          [of grid3_view "\<lparr>activeHandle = 2, draggingRow = DragFalse\<rparr>"]
  by (simp add: grid3_view_def drag3_view_def)

end
